theory Spec2Isabelle
  imports Complex_Main
begin

section \<open>JavaScript values\<close>

text \<open>
  A JavaScript number is either \<open>NaN\<close> or a finite value, which is modelled by a real:
  the rounding of IEEE doubles and the two infinities are outside the model.
\<close>

datatype jsnum = NaN | Num real

text \<open>\<open>Math.round\<close> on a finite value: the nearest integer, a tie going up.\<close>

definition roundHalfUp :: "real \<Rightarrow> real" where
  "roundHalfUp r = of_int \<lfloor>r + 1 / 2\<rfloor>"

definition mathRound :: "jsnum \<Rightarrow> jsnum" where
  "mathRound x = (case x of NaN \<Rightarrow> NaN | Num r \<Rightarrow> Num (roundHalfUp r))"

text \<open>\<open>Math.min\<close>: \<open>NaN\<close> as soon as one argument is \<open>NaN\<close>.\<close>

definition mathMin :: "jsnum \<Rightarrow> jsnum \<Rightarrow> jsnum" where
  "mathMin x y =
     (case x of NaN \<Rightarrow> NaN
      | Num a \<Rightarrow> (case y of NaN \<Rightarrow> NaN | Num b \<Rightarrow> Num (min a b)))"

text \<open>The comparison \<open><=\<close> of JavaScript: false as soon as one side is \<open>NaN\<close>.\<close>

definition jsLessEq :: "jsnum \<Rightarrow> jsnum \<Rightarrow> bool" where
  "jsLessEq x y =
     (case x of NaN \<Rightarrow> False
      | Num a \<Rightarrow> (case y of NaN \<Rightarrow> False | Num b \<Rightarrow> a \<le> b))"

definition jsMinus :: "jsnum \<Rightarrow> jsnum \<Rightarrow> jsnum" where
  "jsMinus x y =
     (case x of NaN \<Rightarrow> NaN
      | Num a \<Rightarrow> (case y of NaN \<Rightarrow> NaN | Num b \<Rightarrow> Num (a - b)))"

definition jsDivide :: "jsnum \<Rightarrow> real \<Rightarrow> jsnum" where
  "jsDivide x d = (case x of NaN \<Rightarrow> NaN | Num a \<Rightarrow> Num (a / d))"

text \<open>\<open>Number(x.toFixed(3))\<close>: the nearest multiple of one thousandth, a tie going up.\<close>

definition toFixed3 :: "real \<Rightarrow> real" where
  "toFixed3 x = roundHalfUp (x * 1000) / 1000"

text \<open>
  The built-ins of the platform that \<open>getDelay\<close> calls. \<open>toNumber s\<close> is \<open>Number(s)\<close>,
  \<open>dateGetTime s\<close> is \<open>new Date(s).getTime()\<close> in milliseconds (\<open>NaN\<close> for a string
  that is no date), \<open>dateNow k\<close> is what \<open>Date.now()\<close> returns and \<open>mathRandom k\<close> what
  \<open>Math.random()\<close> returns when the delay of the retry numbered \<open>k\<close> is computed.
\<close>

record jsEnv =
  toNumber :: "string \<Rightarrow> jsnum"
  dateGetTime :: "string \<Rightarrow> jsnum"
  dateNow :: "nat \<Rightarrow> real"
  mathRandom :: "nat \<Rightarrow> real"

text \<open>\<open>n.toString()\<close> for a non-negative integer.\<close>

fun natToString :: "nat \<Rightarrow> string" where
  "natToString n =
     (if n < 10 then [''0123456789'' ! n]
      else natToString (n div 10) @ [''0123456789'' ! (n mod 10)])"

declare natToString.simps [simp del]

section \<open>Requests, responses and the context\<close>

type_synonym Headers = "string \<rightharpoonup> string"

record Request =
  reqMethod :: string
  headers :: Headers

datatype RequestInfo = UrlString string | RequestObject Request

record FetchOptions =
  optMethod :: "string option"
  optHeaders :: "Headers option"

record Response =
  status :: int
  respHeaders :: "Headers option"

text \<open>
  Modelled from the spec: the class \<open>RetryHandlerOptions\<close> is not among the sources. The
  spec gives it the fields \<open>maxRetries\<close>, \<open>delay\<close>, \<open>maxDelay\<close> and the predicate
  \<open>shouldRetry(delay, attempts, request, options, response)\<close>; \<open>getMaxDelay()\<close> reads
  \<open>maxDelay\<close>.
\<close>

record RetryHandlerOptions =
  delay :: real
  maxDelay :: real
  maxRetries :: nat
  shouldRetry :: "real \<Rightarrow> nat \<Rightarrow> RequestInfo \<Rightarrow> FetchOptions option \<Rightarrow> Response \<Rightarrow> bool"

text \<open>
  Modelled from the spec: the defaults of \<open>new RetryHandlerOptions()\<close> are
  \<open>maxRetries = 3\<close>, \<open>delay = 3\<close>, \<open>maxDelay = 180\<close> and a predicate that always approves.
\<close>

definition defaultRetryHandlerOptions :: RetryHandlerOptions where
  "defaultRetryHandlerOptions =
     \<lparr>delay = 3, maxDelay = 180, maxRetries = 3, shouldRetry = (\<lambda>d a rq ro rs. True)\<rparr>"

text \<open>
  The own properties of an object handed to \<open>Object.assign\<close> as a source: a per-call
  override may carry any part of a configuration.
\<close>

record OptionsPatch =
  patchDelay :: "real option"
  patchMaxDelay :: "real option"
  patchMaxRetries :: "nat option"
  patchShouldRetry ::
    "(real \<Rightarrow> nat \<Rightarrow> RequestInfo \<Rightarrow> FetchOptions option \<Rightarrow> Response \<Rightarrow> bool) option"

text \<open>
  \<open>MiddlewareControl\<close>: the options registered for a call, by the name of their class.
  A context whose \<open>middlewareControl\<close> is no instance of it has \<open>None\<close>.
\<close>

type_synonym MiddlewareControl = "string \<rightharpoonup> OptionsPatch"

record Context =
  request :: RequestInfo
  options :: "FetchOptions option"
  response :: "Response option"
  middlewareControl :: "MiddlewareControl option"

text \<open>
  A failure of \<open>execute\<close>: either what the next middleware threw, or the \<open>TypeError\<close>
  that JavaScript raises when a property of \<open>undefined\<close> is read.
\<close>

datatype 'e failure = Delegated 'e | TypeError

section \<open>Header access\<close>

text \<open>
  Modelled from the spec: \<open>getRequestHeader\<close> and \<open>setRequestHeader\<close> of
  \<open>MiddlewareUtil\<close> are not among the sources. They get and set a named header of the
  request whether it is a \<open>Request\<close> object, which carries its own headers, or a URL string,
  whose headers are those of the request options (when there are options).
\<close>

definition getRequestHeader :: "RequestInfo \<Rightarrow> FetchOptions option \<Rightarrow> string \<Rightarrow> string option" where
  "getRequestHeader rq ro key =
     (case rq of
        RequestObject r \<Rightarrow> headers r key
      | UrlString u \<Rightarrow>
          (case ro of
             None \<Rightarrow> None
           | Some fo \<Rightarrow> (case optHeaders fo of None \<Rightarrow> None | Some h \<Rightarrow> h key)))"

definition setRequestHeader ::
  "RequestInfo \<Rightarrow> FetchOptions option \<Rightarrow> string \<Rightarrow> string \<Rightarrow> RequestInfo \<times> FetchOptions option" where
  "setRequestHeader rq ro key v =
     (case rq of
        RequestObject r \<Rightarrow> (RequestObject (r\<lparr>headers := (headers r)(key \<mapsto> v)\<rparr>), ro)
      | UrlString u \<Rightarrow>
          (case ro of
             None \<Rightarrow> (rq, None)
           | Some fo \<Rightarrow>
               (rq, Some (fo\<lparr>optHeaders :=
                  Some (case optHeaders fo of
                          None \<Rightarrow> Map.empty(key \<mapsto> v)
                        | Some h \<Rightarrow> h(key \<mapsto> v))\<rparr>))))"

section \<open>The retry handler\<close>

definition RETRY_STATUS_CODES :: "int list" where
  "RETRY_STATUS_CODES = [429, 503, 504]"

definition RETRY_ATTEMPT_HEADER :: string where
  "RETRY_ATTEMPT_HEADER = ''Retry-Attempt''"

definition RETRY_AFTER_HEADER :: string where
  "RETRY_AFTER_HEADER = ''Retry-After''"

definition TRANSFER_ENCODING_HEADER :: string where
  "TRANSFER_ENCODING_HEADER = ''Transfer-Encoding''"

definition TRANSFER_ENCODING_CHUNKED :: string where
  "TRANSFER_ENCODING_CHUNKED = ''chunked''"

definition isRetry :: "Response \<Rightarrow> bool" where
  "isRetry rs = (status rs \<in> set RETRY_STATUS_CODES)"

text \<open>
  The first line of \<open>isBuffered\<close>: the method of a \<open>Request\<close> object, else
  \<open>options.method\<close>, which raises a \<open>TypeError\<close> when the options are \<open>undefined\<close> and is
  \<open>undefined\<close> (here \<open>None\<close>) when the options name no method. The enumeration
  \<open>RequestMethod\<close> is not among the sources: its members \<open>PUT\<close>, \<open>PATCH\<close> and \<open>POST\<close> are
  taken to be the method names in upper case.
\<close>

definition requestMethod :: "RequestInfo \<Rightarrow> FetchOptions option \<Rightarrow> 'e failure + string option" where
  "requestMethod rq ro =
     (case rq of
        RequestObject r \<Rightarrow> Inr (Some (reqMethod r))
      | UrlString u \<Rightarrow> (case ro of None \<Rightarrow> Inl TypeError | Some fo \<Rightarrow> Inr (optMethod fo)))"

definition isBuffered :: "RequestInfo \<Rightarrow> FetchOptions option \<Rightarrow> Response \<Rightarrow> 'e failure + bool" where
  "isBuffered rq ro rs =
     (case requestMethod rq ro of
        Inl err \<Rightarrow> Inl err
      | Inr m \<Rightarrow>
          (let isPutPatchOrPost = (m = Some ''PUT'' \<or> m = Some ''PATCH'' \<or> m = Some ''POST'') in
           if isPutPatchOrPost then
             (let isStream = (getRequestHeader rq ro ''Content-Type'' = Some ''application/octet-stream'') in
              if \<not> isStream then
                (let isTransferEncoding =
                       (case respHeaders rs of
                          None \<Rightarrow> False
                        | Some h \<Rightarrow> h TRANSFER_ENCODING_HEADER = Some TRANSFER_ENCODING_CHUNKED) in
                 if isTransferEncoding then Inr True else Inr False)
              else Inr False)
           else Inr False))"

text \<open>The term \<open>Math.round((1 / 2) * (2 ** attempts - 1))\<close> of the back-off time.\<close>

definition backOffBase :: "nat \<Rightarrow> real" where
  "backOffBase attempts = roundHalfUp ((1 / 2) * (2 ^ attempts - 1))"

definition getExponentialBackOffTime :: "jsEnv \<Rightarrow> nat \<Rightarrow> real" where
  "getExponentialBackOffTime env attempts =
     (let randomness = toFixed3 (mathRandom env attempts) in
      backOffBase attempts + randomness)"

text \<open>The value of the local variable \<open>newDelay\<close> of \<open>getDelay\<close> before the cap.\<close>

definition newDelay :: "jsEnv \<Rightarrow> Response \<Rightarrow> nat \<Rightarrow> real \<Rightarrow> jsnum" where
  "newDelay env rs retryAttempts dly =
     (let retryAfter =
            (case respHeaders rs of None \<Rightarrow> None | Some h \<Rightarrow> h RETRY_AFTER_HEADER) in
      case retryAfter of
        Some v \<Rightarrow>
          (if toNumber env v = NaN
           then mathRound (jsDivide (jsMinus (dateGetTime env v) (Num (dateNow env retryAttempts))) 1000)
           else toNumber env v)
      | None \<Rightarrow> Num (getExponentialBackOffTime env retryAttempts * dly))"

text \<open>\<open>this\<close> is the options object the handler was constructed with.\<close>

definition getDelay :: "jsEnv \<Rightarrow> RetryHandlerOptions \<Rightarrow> Response \<Rightarrow> nat \<Rightarrow> real \<Rightarrow> jsnum" where
  "getDelay env this rs retryAttempts dly =
     mathMin (newDelay env rs retryAttempts dly) (Num (maxDelay this))"

text \<open>
  What a call observes besides the context: the state of the rest of the chain (the
  transport, the server), the number of times the next middleware was executed and the
  delays slept so far, oldest first.
\<close>

record 's World =
  nextState :: 's
  calls :: nat
  sleeps :: "jsnum list"

text \<open>
  The next middleware of the chain: from its state and the context it either throws
  (\<open>Some e\<close>) or returns (\<open>None\<close>), leaving the context and its state as they are then.
\<close>

type_synonym ('s, 'e) Middleware = "'s \<Rightarrow> Context \<Rightarrow> 'e option \<times> Context \<times> 's"

text \<open>
  The condition of the \<open>if\<close> of \<open>executeWithRetry\<close>, evaluated from left to right as
  \<open>&&\<close> does: \<open>isRetry\<close> reads \<open>response.status\<close>, a \<open>TypeError\<close> when the context has no
  response.
\<close>

definition retryCondition :: "RetryHandlerOptions \<Rightarrow> nat \<Rightarrow> Context \<Rightarrow> 'e failure + bool" where
  "retryCondition opts retryAttempts ctx =
     (if maxRetries opts = retryAttempts then
        (case response ctx of
           None \<Rightarrow> Inl TypeError
         | Some rs \<Rightarrow>
             if isRetry rs then
               (case isBuffered (request ctx) (options ctx) rs of
                  Inl err \<Rightarrow> Inl err
                | Inr buffered \<Rightarrow>
                    if buffered
                    then Inr (shouldRetry opts (delay opts) retryAttempts (request ctx) (options ctx) rs)
                    else Inr False)
             else Inr False)
      else Inr False)"

text \<open>
  The statements between the increment of the counter and the recursive call: the write
  of the attempt header, the delay and the sleep. They give the context and the world the
  next round starts from; \<open>getDelay\<close> reads \<open>response.headers\<close>, a \<open>TypeError\<close> when the
  context has no response.
\<close>

definition prepareRetry ::
  "jsEnv \<Rightarrow> RetryHandlerOptions \<Rightarrow> Context \<Rightarrow> nat \<Rightarrow> RetryHandlerOptions \<Rightarrow> 's World
     \<Rightarrow> 'e failure \<times> Context + Context \<times> 's World" where
  "prepareRetry env this ctx retryAttempts opts w =
     (case setRequestHeader (request ctx) (options ctx) RETRY_ATTEMPT_HEADER (natToString retryAttempts) of
        (rq, ro) \<Rightarrow>
          (let ctx' = ctx\<lparr>request := rq, options := ro\<rparr> in
           case response ctx' of
             None \<Rightarrow> Inl (TypeError, ctx')
           | Some rs \<Rightarrow>
               (let dly = getDelay env this rs retryAttempts (delay opts) in
                Inr (ctx', w\<lparr>sleeps := sleeps w @ [dly]\<rparr>))))"

partial_function (option) executeWithRetry ::
  "jsEnv \<Rightarrow> RetryHandlerOptions \<Rightarrow> ('s, 'e) Middleware \<Rightarrow> Context \<Rightarrow> nat \<Rightarrow> RetryHandlerOptions
     \<Rightarrow> 's World \<Rightarrow> (('e failure + unit) \<times> Context \<times> 's World) option" where
  "executeWithRetry env this nxt ctx retryAttempts opts w =
     (case nxt (nextState w) ctx of
        (thrown, ctx1, s1) \<Rightarrow>
          (case thrown of
             Some e \<Rightarrow> Some (Inl (Delegated e), ctx1, w\<lparr>nextState := s1, calls := Suc (calls w)\<rparr>)
           | None \<Rightarrow>
               (case retryCondition opts retryAttempts ctx1 of
                  Inl err \<Rightarrow> Some (Inl err, ctx1, w\<lparr>nextState := s1, calls := Suc (calls w)\<rparr>)
                | Inr retry \<Rightarrow>
                    if retry then
                      (case prepareRetry env this ctx1 (Suc retryAttempts) opts
                              (w\<lparr>nextState := s1, calls := Suc (calls w)\<rparr>) of
                         Inl (err, ctx2) \<Rightarrow>
                           Some (Inl err, ctx2, w\<lparr>nextState := s1, calls := Suc (calls w)\<rparr>)
                       | Inr (ctx2, w2) \<Rightarrow> executeWithRetry env this nxt ctx2 (Suc retryAttempts) opts w2)
                    else Some (Inr (), ctx1, w\<lparr>nextState := s1, calls := Suc (calls w)\<rparr>))))"

section \<open>Building the configuration of a call\<close>

text \<open>
  Options objects live in a store, addressed by their index: \<open>new\<close> appends an object,
  \<open>Object.assign\<close> overwrites the properties of its target in place.
\<close>

type_synonym Store = "RetryHandlerOptions list"

definition newRetryHandlerOptions :: "Store \<Rightarrow> nat \<times> Store" where
  "newRetryHandlerOptions st = (length st, st @ [defaultRetryHandlerOptions])"

definition ownProperties :: "RetryHandlerOptions \<Rightarrow> OptionsPatch" where
  "ownProperties opts =
     \<lparr>patchDelay = Some (delay opts), patchMaxDelay = Some (maxDelay opts),
      patchMaxRetries = Some (maxRetries opts), patchShouldRetry = Some (shouldRetry opts)\<rparr>"

definition assignProperties :: "RetryHandlerOptions \<Rightarrow> OptionsPatch \<Rightarrow> RetryHandlerOptions" where
  "assignProperties opts src =
     \<lparr>delay = (case patchDelay src of None \<Rightarrow> delay opts | Some v \<Rightarrow> v),
      maxDelay = (case patchMaxDelay src of None \<Rightarrow> maxDelay opts | Some v \<Rightarrow> v),
      maxRetries = (case patchMaxRetries src of None \<Rightarrow> maxRetries opts | Some v \<Rightarrow> v),
      shouldRetry = (case patchShouldRetry src of None \<Rightarrow> shouldRetry opts | Some v \<Rightarrow> v)\<rparr>"

text \<open>\<open>Object.assign(target, source)\<close>; a source that is \<open>undefined\<close> is skipped.\<close>

definition objectAssign :: "Store \<Rightarrow> nat \<Rightarrow> OptionsPatch option \<Rightarrow> Store" where
  "objectAssign st target source =
     (case source of
        None \<Rightarrow> st
      | Some src \<Rightarrow> st[target := assignProperties (st ! target) src])"

text \<open>
  The first statements of \<open>execute\<close>: the address of the effective configuration and the
  store they leave. \<open>thisOptions\<close> is the address held by the field \<open>this.options\<close>; the name
  of its class is \<open>RetryHandlerOptions\<close>.
\<close>

definition effectiveOptions :: "nat \<Rightarrow> Context \<Rightarrow> Store \<Rightarrow> nat \<times> Store" where
  "effectiveOptions thisOptions ctx st =
     (case newRetryHandlerOptions st of
        (opts, st1) \<Rightarrow>
          (let st2 = objectAssign st1 opts (Some (ownProperties (st1 ! thisOptions))) in
           case middlewareControl ctx of
             None \<Rightarrow> (opts, st2)
           | Some mc \<Rightarrow>
               (let requestOptions = mc ''RetryHandlerOptions'' in
                (opts, objectAssign st2 opts requestOptions))))"

text \<open>
  \<open>execute\<close>. A handler always holds an options object (the constructor supplies a default
  one), so \<open>thisOptions\<close> is an address of the store; reading a property of a missing
  object would be a \<open>TypeError\<close>.
\<close>

definition execute ::
  "jsEnv \<Rightarrow> nat \<Rightarrow> ('s, 'e) Middleware \<Rightarrow> Context \<Rightarrow> Store \<Rightarrow> 's World
     \<Rightarrow> ((('e failure + unit) \<times> Context \<times> 's World) \<times> Store) option" where
  "execute env thisOptions nxt ctx st w =
     (if thisOptions < length st then
        (let retryAttempts = 0 in
         case effectiveOptions thisOptions ctx st of
           (opts, st') \<Rightarrow>
             (case executeWithRetry env (st' ! thisOptions) nxt ctx retryAttempts (st' ! opts) w of
                None \<Rightarrow> None
              | Some r \<Rightarrow> Some (r, st')))
      else Some ((Inl TypeError, ctx, w), st))"

section \<open>Whole numbers\<close>

text \<open>
  A notion used to state what a delay is: a JavaScript number that is a whole number, of
  seconds here. \<open>NaN\<close> is none.
\<close>

definition isWholeNumber :: "jsnum \<Rightarrow> bool" where
  "isWholeNumber x = (case x of NaN \<Rightarrow> False | Num r \<Rightarrow> r = of_int \<lfloor>r\<rfloor>)"

section \<open>What the merge computes\<close>

text \<open>
  Two notions used to state what \<open>effectiveOptions\<close> leaves in the store: the override
  that the context registers for this handler, if any, and a configuration with the
  properties of a source assigned over it.
\<close>

definition requestOptionsOf :: "Context \<Rightarrow> OptionsPatch option" where
  "requestOptionsOf ctx =
     (case middlewareControl ctx of None \<Rightarrow> None | Some mc \<Rightarrow> mc ''RetryHandlerOptions'')"

definition merged :: "RetryHandlerOptions \<Rightarrow> OptionsPatch option \<Rightarrow> RetryHandlerOptions" where
  "merged base src = (case src of None \<Rightarrow> base | Some p \<Rightarrow> assignProperties base p)"

section \<open>Sample inputs\<close>

text \<open>
  Concrete inputs for the evaluations below. \<open>decimalNumber\<close> is \<open>Number\<close> on a non-empty
  string of decimal digits; to every other string it answers \<open>NaN\<close>, which is what \<open>Number\<close>
  answers to the two others used here, the word \<open>soon\<close> and an HTTP date.
\<close>

definition isDigit :: "char \<Rightarrow> bool" where
  "isDigit c = (48 \<le> (of_char c :: nat) \<and> (of_char c :: nat) \<le> 57)"

definition decimalValue :: "string \<Rightarrow> nat" where
  "decimalValue s = foldl (\<lambda>n c. 10 * n + (of_char c - 48)) 0 s"

definition decimalNumber :: "string \<Rightarrow> jsnum" where
  "decimalNumber s = (if s \<noteq> [] \<and> list_all isDigit s then Num (real (decimalValue s)) else NaN)"

text \<open>
  \<open>new Date(s).getTime()\<close> on the one date used, 21 October 2015 at 07:28:00 GMT, which is
  1445412480 seconds after the epoch; \<open>NaN\<close> stands for an invalid date, as for \<open>soon\<close>.
\<close>

definition sampleDate :: "string \<Rightarrow> jsnum" where
  "sampleDate s = (if s = ''Wed, 21 Oct 2015 07:28:00 GMT'' then Num 1445412480000 else NaN)"

text \<open>The clock stands five seconds after that date; every random draw is a quarter.\<close>

definition sampleEnv :: jsEnv where
  "sampleEnv =
     \<lparr>toNumber = decimalNumber, dateGetTime = sampleDate,
      dateNow = (\<lambda>k. 1445412485000), mathRandom = (\<lambda>k. 1 / 4)\<rparr>"

text \<open>A chain that answers every request with the same response, and one that throws.\<close>

definition respondWith :: "Response \<Rightarrow> ('s, 'e) Middleware" where
  "respondWith rs s ctx = (None, ctx\<lparr>response := Some rs\<rparr>, s)"

definition failWith :: "'e \<Rightarrow> ('s, 'e) Middleware" where
  "failWith e s ctx = (Some e, ctx, s)"

text \<open>A chain that answers the first request with a response and throws at the second.\<close>

definition respondThenFail :: "Response \<Rightarrow> 'e \<Rightarrow> (nat, 'e) Middleware" where
  "respondThenFail rs e n ctx =
     (if n = 0 then (None, ctx\<lparr>response := Some rs\<rparr>, Suc n) else (Some e, ctx, Suc n))"

definition chunked503 :: Response where
  "chunked503 = \<lparr>status = 503, respHeaders = Some (Map.empty(''Transfer-Encoding'' \<mapsto> ''chunked''))\<rparr>"

definition busy503 :: Response where
  "busy503 =
     \<lparr>status = 503,
      respHeaders = Some (Map.empty(''Transfer-Encoding'' \<mapsto> ''chunked'', ''Retry-After'' \<mapsto> ''200''))\<rparr>"

definition retryAfterResponse :: "string \<Rightarrow> Response" where
  "retryAfterResponse v = \<lparr>status = 503, respHeaders = Some (Map.empty(''Retry-After'' \<mapsto> v))\<rparr>"

definition postContext :: Context where
  "postContext =
     \<lparr>request = RequestObject \<lparr>reqMethod = ''POST'', headers = Map.empty\<rparr>,
      options = None, response = None, middlewareControl = None\<rparr>"

definition getContext :: Context where
  "getContext =
     \<lparr>request = RequestObject \<lparr>reqMethod = ''GET'', headers = Map.empty\<rparr>,
      options = None, response = None, middlewareControl = None\<rparr>"

definition urlContext :: Context where
  "urlContext =
     \<lparr>request = UrlString ''https://graph.microsoft.com/v1.0/me'',
      options = None, response = None, middlewareControl = None\<rparr>"

definition withOverride :: "Context \<Rightarrow> OptionsPatch \<Rightarrow> Context" where
  "withOverride ctx p = ctx\<lparr>middlewareControl := Some (Map.empty(''RetryHandlerOptions'' \<mapsto> p))\<rparr>"

definition emptyPatch :: OptionsPatch where
  "emptyPatch =
     \<lparr>patchDelay = None, patchMaxDelay = None, patchMaxRetries = None, patchShouldRetry = None\<rparr>"

definition world0 :: "unit World" where
  "world0 = \<lparr>nextState = (), calls = 0, sleeps = []\<rparr>"

definition countingWorld :: "nat World" where
  "countingWorld = \<lparr>nextState = 0, calls = 0, sleeps = []\<rparr>"

section \<open>The retry loop unrolled\<close>

lemma retryCondition_neq: "maxRetries opts \<noteq> a \<Longrightarrow> retryCondition opts a ctx = Inr False"
  by (simp add: retryCondition_def)

lemma retryCondition_True:
  "retryCondition opts a ctx = Inr True \<Longrightarrow> maxRetries opts = a"
  by (auto simp: retryCondition_def split: if_splits)

lemma executeWithRetry_stop:
  assumes "maxRetries opts \<noteq> a"
  shows "executeWithRetry env this nxt ctx a opts w =
     (case nxt (nextState w) ctx of
        (thrown, ctx1, s1) \<Rightarrow>
          Some ((case thrown of Some e \<Rightarrow> Inl (Delegated e) | None \<Rightarrow> Inr ()), ctx1,
                w\<lparr>nextState := s1, calls := Suc (calls w)\<rparr>))"
  by (subst executeWithRetry.simps)
     (simp add: retryCondition_neq [OF assms] split: prod.splits option.splits)

lemma executeWithRetry_unrolled:
  fixes nxt :: "('s, 'e) Middleware"
  shows "executeWithRetry env this nxt ctx a opts w =
     (case nxt (nextState w) ctx of
        (thrown, ctx1, s1) \<Rightarrow>
          (case thrown of
             Some e \<Rightarrow> Some (Inl (Delegated e), ctx1, w\<lparr>nextState := s1, calls := Suc (calls w)\<rparr>)
           | None \<Rightarrow>
               (case retryCondition opts a ctx1 of
                  Inl err \<Rightarrow> Some (Inl err, ctx1, w\<lparr>nextState := s1, calls := Suc (calls w)\<rparr>)
                | Inr retry \<Rightarrow>
                    if retry then
                      (case prepareRetry env this ctx1 (Suc a) opts
                              (w\<lparr>nextState := s1, calls := Suc (calls w)\<rparr>) of
                         Inl (err, ctx2) \<Rightarrow>
                           Some (Inl err, ctx2, w\<lparr>nextState := s1, calls := Suc (calls w)\<rparr>)
                       | Inr (ctx2, w2) \<Rightarrow>
                           (case nxt (nextState w2) ctx2 of
                              (thrown2, ctx3, s3) \<Rightarrow>
                                Some ((case thrown2 of Some e \<Rightarrow> Inl (Delegated e) | None \<Rightarrow> Inr ()),
                                      ctx3, w2\<lparr>nextState := s3, calls := Suc (calls w2)\<rparr>)))
                    else Some (Inr (), ctx1, w\<lparr>nextState := s1, calls := Suc (calls w)\<rparr>))))"
proof -
  obtain thrown ctx1 s1 where n: "nxt (nextState w) ctx = (thrown, ctx1, s1)"
    by (cases "nxt (nextState w) ctx") auto
  show ?thesis
  proof (cases "retryCondition opts a ctx1 = (Inr True :: 'e failure + bool)")
    case True
    then have "maxRetries opts \<noteq> Suc a" using retryCondition_True [OF True] by simp
    then show ?thesis
      by (subst executeWithRetry.simps)
         (simp add: n True executeWithRetry_stop split: option.splits sum.splits prod.splits)
  next
    case False
    then show ?thesis
      by (subst executeWithRetry.simps)
         (auto simp: n split: option.splits sum.splits prod.splits)
  qed
qed

lemma prepareRetry_world:
  "prepareRetry env this ctx a opts w = Inr (ctx2, w2) \<Longrightarrow>
     nextState w2 = nextState w \<and> calls w2 = calls w \<and> length (sleeps w2) = Suc (length (sleeps w))"
  by (auto simp: prepareRetry_def Let_def split: prod.splits option.splits)

lemma executeWithRetry_returns:
  fixes nxt :: "('s, 'e) Middleware"
  shows "\<exists>out ctx' w'. executeWithRetry env this nxt ctx retryAttempts opts w = Some (out, ctx', w')
      \<and> (calls w' = calls w + 1 \<or> calls w' = calls w + 2)
      \<and> length (sleeps w') - length (sleeps w) = calls w' - calls w - 1
      \<and> calls w' - calls w - 1 \<le> Suc (maxRetries opts) - retryAttempts"
  unfolding executeWithRetry_unrolled
  by (auto split: prod.splits option.splits sum.splits
      dest!: prepareRetry_world retryCondition_True)

text \<open>
  The handler raises no failure of the kind the next middleware throws: what it raises
  itself is a \<open>TypeError\<close>.
\<close>

lemma requestMethod_not_Delegated: "requestMethod rq ro \<noteq> Inl (Delegated e)"
  by (simp add: requestMethod_def split: RequestInfo.splits option.splits)

lemma isBuffered_not_Delegated: "isBuffered rq ro rs \<noteq> Inl (Delegated e)"
  using requestMethod_not_Delegated [of rq ro e]
  by (auto simp: isBuffered_def Let_def split: sum.splits)

lemma retryCondition_not_Delegated: "retryCondition opts a ctx \<noteq> Inl (Delegated e)"
  using isBuffered_not_Delegated [of "request ctx" "options ctx" _ e]
  by (auto simp: retryCondition_def split: option.splits sum.splits)

lemma prepareRetry_not_Delegated: "prepareRetry env this ctx a opts w \<noteq> Inl (Delegated e, c)"
  by (simp add: prepareRetry_def Let_def split: prod.splits option.splits)

section \<open>Rounding\<close>

lemma isWholeNumber_roundHalfUp: "isWholeNumber (Num (roundHalfUp x))"
  by (simp add: isWholeNumber_def roundHalfUp_def)



lemma roundHalfUp_past: "x \<le> 0 \<Longrightarrow> roundHalfUp x \<le> 0"
proof -
  assume "x \<le> 0"
  then have "\<lfloor>x + 1 / 2\<rfloor> \<le> 0" by (simp add: floor_le_iff)
  then show ?thesis unfolding roundHalfUp_def by simp
qed

section \<open>The merge in the store\<close>

lemma assignProperties_ownProperties: "assignProperties x (ownProperties y) = y"
  by (simp add: assignProperties_def ownProperties_def)

lemma effectiveOptions_eq:
  assumes "thisOptions < length st"
  shows "effectiveOptions thisOptions ctx st
     = (length st, st @ [merged (st ! thisOptions) (requestOptionsOf ctx)])"
  using assms
  by (simp add: effectiveOptions_def newRetryHandlerOptions_def objectAssign_def Let_def
      nth_append assignProperties_ownProperties merged_def requestOptionsOf_def
      split: option.splits)

lemma execute_eq:
  assumes "thisOptions < length st"
  shows "execute env thisOptions nxt ctx st w
     = map_option (\<lambda>r. (r, st @ [merged (st ! thisOptions) (requestOptionsOf ctx)]))
         (executeWithRetry env (st ! thisOptions) nxt ctx 0
            (merged (st ! thisOptions) (requestOptionsOf ctx)) w)"
  using assms
  by (simp add: execute_def effectiveOptions_eq nth_append split: option.splits)




section \<open>Unfolding on concrete inputs\<close>

lemmas sample_defs = sampleEnv_def respondWith_def failWith_def respondThenFail_def countingWorld_def
  chunked503_def busy503_def
  retryAfterResponse_def postContext_def getContext_def urlContext_def withOverride_def
  emptyPatch_def world0_def defaultRetryHandlerOptions_def

lemmas handler_defs = retryCondition_def prepareRetry_def isRetry_def isBuffered_def requestMethod_def
  getRequestHeader_def setRequestHeader_def RETRY_STATUS_CODES_def RETRY_ATTEMPT_HEADER_def
  RETRY_AFTER_HEADER_def TRANSFER_ENCODING_HEADER_def TRANSFER_ENCODING_CHUNKED_def
  getDelay_def newDelay_def getExponentialBackOffTime_def backOffBase_def toFixed3_def roundHalfUp_def
  mathMin_def mathRound_def jsMinus_def jsDivide_def

lemmas number_defs = decimalNumber_def isDigit_def decimalValue_def sampleDate_def


section \<open>The retry decision\<close>

text \<open>
  C1, on the code as it is. The condition of \<open>executeWithRetry\<close> compares
  \<open>options.maxRetries === retryAttempts\<close>. A POST request with no stream content type,
  answered by 503 with chunked transfer encoding, under the default configuration
  (\<open>maxRetries = 3\<close>, counter 0, a predicate that approves) is not retried: the next
  middleware is executed once, nothing is slept, no attempt header is written. With
  \<open>maxRetries = 0\<close>, where the counter equals \<open>maxRetries\<close>, the same exchange is retried
  once: two executions, one sleep, attempt header \<open>1\<close>.
\<close>

theorem executeWithRetry_retries_only_at_maxRetries:
  "executeWithRetry sampleEnv defaultRetryHandlerOptions (respondWith chunked503 :: (unit, string) Middleware)
       postContext 0 defaultRetryHandlerOptions world0
     = Some (Inr (), postContext\<lparr>response := Some chunked503\<rparr>, world0\<lparr>calls := 1\<rparr>)
   \<and> executeWithRetry sampleEnv defaultRetryHandlerOptions (respondWith chunked503 :: (unit, string) Middleware)
       postContext 0 (defaultRetryHandlerOptions\<lparr>maxRetries := 0\<rparr>) world0
     = Some (Inr (),
         \<lparr>request = RequestObject \<lparr>reqMethod = ''POST'', headers = Map.empty(''Retry-Attempt'' \<mapsto> ''1'')\<rparr>,
          options = None, response = Some chunked503, middlewareControl = None\<rparr>,
         \<lparr>nextState = (), calls = 2, sleeps = [Num (15 / 4)]\<rparr>)"
  by (simp add: executeWithRetry_unrolled sample_defs handler_defs natToString.simps)

text \<open>
  C2. Whenever an execution of the next middleware throws, the first of a call or the one
  after a retry, \<open>executeWithRetry\<close> fails with what was thrown, unchanged, and the next
  middleware is not executed again. A second execution happens only after the first one
  returned without throwing, and a failure of the kind the next middleware throws comes
  out of \<open>executeWithRetry\<close> only when its last execution threw it.
\<close>

theorem executeWithRetry_propagates_failure:
  fixes nxt :: "('s, 'e) Middleware"
  shows "(nxt (nextState w) ctx = (Some e, ctx1, s1) \<longrightarrow>
            executeWithRetry env this nxt ctx retryAttempts opts w
              = Some (Inl (Delegated e), ctx1, w\<lparr>nextState := s1, calls := Suc (calls w)\<rparr>))
       \<and> (nxt (nextState w) ctx = (None, ctx1, s1)
            \<and> (retryCondition opts retryAttempts ctx1 :: 'e failure + bool) = Inr True
            \<and> (prepareRetry env this ctx1 (Suc retryAttempts) opts
                  (w\<lparr>nextState := s1, calls := Suc (calls w)\<rparr>)
                  :: 'e failure \<times> Context + Context \<times> 's World) = Inr (ctx2, w2)
            \<and> nxt (nextState w2) ctx2 = (Some e, ctx3, s3) \<longrightarrow>
            executeWithRetry env this nxt ctx retryAttempts opts w
              = Some (Inl (Delegated e), ctx3, w2\<lparr>nextState := s3, calls := Suc (calls w2)\<rparr>)
            \<and> calls w2 = Suc (calls w))
       \<and> (executeWithRetry env this nxt ctx retryAttempts opts w = Some (out, ctx', w')
            \<and> Suc (calls w) < calls w' \<longrightarrow> fst (nxt (nextState w) ctx) = None)
       \<and> (executeWithRetry env this nxt ctx retryAttempts opts w = Some (Inl (Delegated e), ctx', w') \<longrightarrow>
            (\<exists>ctx0 w0 s'. nxt (nextState w0) ctx0 = (Some e, ctx', s')
               \<and> w' = w0\<lparr>nextState := s', calls := Suc (calls w0)\<rparr>
               \<and> (calls w0 = calls w \<or> calls w0 = Suc (calls w))))"
proof (intro conjI impI)
  assume "nxt (nextState w) ctx = (Some e, ctx1, s1)"
  then show "executeWithRetry env this nxt ctx retryAttempts opts w
              = Some (Inl (Delegated e), ctx1, w\<lparr>nextState := s1, calls := Suc (calls w)\<rparr>)"
    unfolding executeWithRetry_unrolled by simp
next
  assume a: "nxt (nextState w) ctx = (None, ctx1, s1)
            \<and> (retryCondition opts retryAttempts ctx1 :: 'e failure + bool) = Inr True
            \<and> (prepareRetry env this ctx1 (Suc retryAttempts) opts
                  (w\<lparr>nextState := s1, calls := Suc (calls w)\<rparr>)
                  :: 'e failure \<times> Context + Context \<times> 's World) = Inr (ctx2, w2)
            \<and> nxt (nextState w2) ctx2 = (Some e, ctx3, s3)"
  then show "executeWithRetry env this nxt ctx retryAttempts opts w
              = Some (Inl (Delegated e), ctx3, w2\<lparr>nextState := s3, calls := Suc (calls w2)\<rparr>)"
    unfolding executeWithRetry_unrolled by simp
  from a have p: "(prepareRetry env this ctx1 (Suc retryAttempts) opts
                  (w\<lparr>nextState := s1, calls := Suc (calls w)\<rparr>)
                  :: 'e failure \<times> Context + Context \<times> 's World) = Inr (ctx2, w2)"
    by simp
  show "calls w2 = Suc (calls w)"
    using prepareRetry_world [OF p] by simp
next
  assume "executeWithRetry env this nxt ctx retryAttempts opts w = Some (out, ctx', w')
            \<and> Suc (calls w) < calls w'"
  then show "fst (nxt (nextState w) ctx) = None"
    unfolding executeWithRetry_unrolled
    by (auto split: prod.splits option.splits sum.splits if_splits)
next
  assume r: "executeWithRetry env this nxt ctx retryAttempts opts w = Some (Inl (Delegated e), ctx', w')"
  obtain thrown ctx1 s1 where n: "nxt (nextState w) ctx = (thrown, ctx1, s1)"
    by (cases "nxt (nextState w) ctx") auto
  show "\<exists>ctx0 w0 s'. nxt (nextState w0) ctx0 = (Some e, ctx', s')
               \<and> w' = w0\<lparr>nextState := s', calls := Suc (calls w0)\<rparr>
               \<and> (calls w0 = calls w \<or> calls w0 = Suc (calls w))"
  proof (cases thrown)
    case (Some e')
    with r n have "e' = e" "ctx' = ctx1" "w' = w\<lparr>nextState := s1, calls := Suc (calls w)\<rparr>"
      unfolding executeWithRetry_unrolled by simp_all
    with n Some show ?thesis by blast
  next
    case None
    have rc: "(retryCondition opts retryAttempts ctx1 :: 'e failure + bool) = Inr True"
    proof (cases "retryCondition opts retryAttempts ctx1 :: 'e failure + bool")
      case (Inl err)
      with r n None retryCondition_not_Delegated [of opts retryAttempts ctx1 e]
      show ?thesis unfolding executeWithRetry_unrolled by simp
    next
      case (Inr b)
      with r n None show ?thesis unfolding executeWithRetry_unrolled by (cases b) simp_all
    qed
    obtain ctx2 w2 where
      p: "(prepareRetry env this ctx1 (Suc retryAttempts) opts
            (w\<lparr>nextState := s1, calls := Suc (calls w)\<rparr>)
            :: 'e failure \<times> Context + Context \<times> 's World) = Inr (ctx2, w2)"
    proof (cases "prepareRetry env this ctx1 (Suc retryAttempts) opts
            (w\<lparr>nextState := s1, calls := Suc (calls w)\<rparr>)
            :: 'e failure \<times> Context + Context \<times> 's World")
      case (Inl x)
      obtain err c where x: "x = (err, c)" by (cases x) auto
      from r n None rc Inl x have "err = Delegated e"
        unfolding executeWithRetry_unrolled by simp
      with Inl x show ?thesis by (simp add: prepareRetry_not_Delegated)
    next
      case (Inr y)
      then show ?thesis using that by (cases y) auto
    qed
    from r n None rc p have
      q: "(case nxt (nextState w2) ctx2 of
                 (thrown2, ctx3, s3) \<Rightarrow>
                   Some ((case thrown2 of Some e \<Rightarrow> Inl (Delegated e) | None \<Rightarrow> Inr ()),
                         ctx3, w2\<lparr>nextState := s3, calls := Suc (calls w2)\<rparr>))
              = Some (Inl (Delegated e), ctx', w')"
      unfolding executeWithRetry_unrolled by simp
    obtain thrown2 ctx3 s3 where n2: "nxt (nextState w2) ctx2 = (thrown2, ctx3, s3)"
      by (cases "nxt (nextState w2) ctx2") auto
    from q n2 have "thrown2 = Some e" "ctx' = ctx3" "w' = w2\<lparr>nextState := s3, calls := Suc (calls w2)\<rparr>"
      by (auto split: option.splits)
    moreover have "calls w2 = Suc (calls w)"
      using prepareRetry_world [OF p] by simp
    ultimately show ?thesis using n2 by blast
  qed
qed

text \<open>
  A chain that throws \<open>offline\<close> at once, and one that answers 503 and throws \<open>offline\<close>
  when it is retried: in both the failure comes back as thrown, after one and after two
  executions.
\<close>

theorem executeWithRetry_propagates_failure_witness:
  "failWith ''offline'' (nextState world0) postContext = (Some ''offline'', postContext, ())
   \<and> executeWithRetry sampleEnv defaultRetryHandlerOptions (failWith ''offline'') postContext 0
        (defaultRetryHandlerOptions\<lparr>maxRetries := 0\<rparr>) world0
       = Some (Inl (Delegated ''offline''), postContext, world0\<lparr>nextState := (), calls := Suc (calls world0)\<rparr>)
   \<and> respondThenFail chunked503 ''offline'' (nextState countingWorld) postContext
       = (None, postContext\<lparr>response := Some chunked503\<rparr>, Suc 0)
   \<and> (retryCondition (defaultRetryHandlerOptions\<lparr>maxRetries := 0\<rparr>) 0
          (postContext\<lparr>response := Some chunked503\<rparr>) :: string failure + bool) = Inr True
   \<and> respondThenFail chunked503 ''offline'' (Suc 0)
         \<lparr>request = RequestObject \<lparr>reqMethod = ''POST'', headers = Map.empty(''Retry-Attempt'' \<mapsto> ''1'')\<rparr>,
          options = None, response = Some chunked503, middlewareControl = None\<rparr>
       = (Some ''offline'',
          \<lparr>request = RequestObject \<lparr>reqMethod = ''POST'', headers = Map.empty(''Retry-Attempt'' \<mapsto> ''1'')\<rparr>,
           options = None, response = Some chunked503, middlewareControl = None\<rparr>, Suc (Suc 0))
   \<and> executeWithRetry sampleEnv defaultRetryHandlerOptions (respondThenFail chunked503 ''offline'') postContext 0
        (defaultRetryHandlerOptions\<lparr>maxRetries := 0\<rparr>) countingWorld
       = Some (Inl (Delegated ''offline''),
          \<lparr>request = RequestObject \<lparr>reqMethod = ''POST'', headers = Map.empty(''Retry-Attempt'' \<mapsto> ''1'')\<rparr>,
           options = None, response = Some chunked503, middlewareControl = None\<rparr>,
          \<lparr>nextState = Suc (Suc 0), calls = 2, sleeps = [Num (15 / 4)]\<rparr>)"
proof -
  let ?opts = "defaultRetryHandlerOptions\<lparr>maxRetries := 0\<rparr>"
  let ?ctx1 = "postContext\<lparr>response := Some chunked503\<rparr>"
  let ?ctx2 = "\<lparr>request = RequestObject \<lparr>reqMethod = ''POST'', headers = Map.empty(''Retry-Attempt'' \<mapsto> ''1'')\<rparr>,
          options = None, response = Some chunked503, middlewareControl = None\<rparr>"
  let ?w2 = "\<lparr>nextState = Suc 0, calls = Suc 0, sleeps = [Num (15 / 4)]\<rparr> :: nat World"
  have f1: "failWith ''offline'' (nextState world0) postContext = (Some ''offline'', postContext, ())"
    by (simp add: failWith_def)
  have a: "executeWithRetry sampleEnv defaultRetryHandlerOptions (failWith ''offline'') postContext 0 ?opts world0
       = Some (Inl (Delegated ''offline''), postContext, world0\<lparr>nextState := (), calls := Suc (calls world0)\<rparr>)"
    using executeWithRetry_propagates_failure [where nxt = "failWith ''offline''" and w = world0
        and ctx = postContext and e = "''offline''" and ?ctx1.0 = postContext and ?s1.0 = "()"
        and env = sampleEnv and this = defaultRetryHandlerOptions and retryAttempts = 0 and opts = ?opts]
      f1 by blast
  have n1: "respondThenFail chunked503 ''offline'' (nextState countingWorld) postContext = (None, ?ctx1, Suc 0)"
    by (simp add: respondThenFail_def countingWorld_def)
  have rc: "(retryCondition ?opts 0 ?ctx1 :: string failure + bool) = Inr True"
    by (simp add: sample_defs handler_defs)
  have pr: "(prepareRetry sampleEnv defaultRetryHandlerOptions ?ctx1 (Suc 0) ?opts
               (countingWorld\<lparr>nextState := Suc 0, calls := Suc (calls countingWorld)\<rparr>)
             :: string failure \<times> Context + Context \<times> nat World) = Inr (?ctx2, ?w2)"
    by (simp add: sample_defs handler_defs natToString.simps)
  have n2: "respondThenFail chunked503 ''offline'' (nextState ?w2) ?ctx2 = (Some ''offline'', ?ctx2, Suc (Suc 0))"
    by (simp add: respondThenFail_def)
  have b: "executeWithRetry sampleEnv defaultRetryHandlerOptions (respondThenFail chunked503 ''offline'') postContext 0
        ?opts countingWorld
       = Some (Inl (Delegated ''offline''), ?ctx2, ?w2\<lparr>nextState := Suc (Suc 0), calls := Suc (calls ?w2)\<rparr>)"
    using executeWithRetry_propagates_failure [where nxt = "respondThenFail chunked503 ''offline''"
        and w = countingWorld and ctx = postContext and e = "''offline''" and ?ctx1.0 = ?ctx1
        and ?s1.0 = "Suc 0" and ?ctx2.0 = ?ctx2 and ?w2.0 = ?w2 and ?ctx3.0 = ?ctx2 and ?s3.0 = "Suc (Suc 0)"
        and env = sampleEnv and this = defaultRetryHandlerOptions and retryAttempts = 0 and opts = ?opts]
      n1 rc pr n2 by blast
  have n2': "respondThenFail chunked503 ''offline'' (Suc 0) ?ctx2 = (Some ''offline'', ?ctx2, Suc (Suc 0))"
    by (simp add: respondThenFail_def)
  show ?thesis using f1 a n1 rc n2' b by simp
qed

text \<open>
  C3, on the code as it is. For a \<open>Request\<close> object \<open>isBuffered\<close> reads the method and the
  \<open>Content-Type\<close> of the object, for a URL string with request options those of the options:
  it returns true exactly when the method is PUT, PATCH or POST, the \<open>Content-Type\<close> is not
  \<open>application/octet-stream\<close> and the response has \<open>Transfer-Encoding: chunked\<close>, and false for
  a GET request of either shape and for options that name no method. For a URL string
  without request options, which is a GET request too, it does not return false: reading
  \<open>options.method\<close> raises a \<open>TypeError\<close>, and \<open>executeWithRetry\<close> fails with it after one
  execution of the next middleware.
\<close>

theorem isBuffered_by_request_shape:
  "(isBuffered (RequestObject r) ro rs :: 'e failure + bool)
      = Inr (reqMethod r \<in> {''PUT'', ''PATCH'', ''POST''}
             \<and> headers r ''Content-Type'' \<noteq> Some ''application/octet-stream''
             \<and> (case respHeaders rs of None \<Rightarrow> None | Some h \<Rightarrow> h ''Transfer-Encoding'') = Some ''chunked'')
   \<and> (isBuffered (UrlString u) (Some fo) rs :: 'e failure + bool)
      = Inr (optMethod fo \<in> {Some ''PUT'', Some ''PATCH'', Some ''POST''}
             \<and> (case optHeaders fo of None \<Rightarrow> None | Some h \<Rightarrow> h ''Content-Type'')
                 \<noteq> Some ''application/octet-stream''
             \<and> (case respHeaders rs of None \<Rightarrow> None | Some h \<Rightarrow> h ''Transfer-Encoding'') = Some ''chunked'')
   \<and> (isBuffered (RequestObject (r\<lparr>reqMethod := ''GET''\<rparr>)) ro rs :: 'e failure + bool) = Inr False
   \<and> (isBuffered (UrlString u) (Some (fo\<lparr>optMethod := Some ''GET''\<rparr>)) rs :: 'e failure + bool) = Inr False
   \<and> (isBuffered (UrlString u) (Some (fo\<lparr>optMethod := None\<rparr>)) rs :: 'e failure + bool) = Inr False
   \<and> (isBuffered (UrlString u) None rs :: 'e failure + bool) = Inl TypeError
   \<and> (isBuffered (request urlContext) (options urlContext) chunked503 :: string failure + bool) = Inl TypeError
   \<and> executeWithRetry sampleEnv defaultRetryHandlerOptions (respondWith chunked503 :: (unit, string) Middleware)
        urlContext 0 (defaultRetryHandlerOptions\<lparr>maxRetries := 0\<rparr>) world0
      = Some (Inl TypeError, urlContext\<lparr>response := Some chunked503\<rparr>, world0\<lparr>calls := 1\<rparr>)"
proof (intro conjI)
  show "(isBuffered (RequestObject r) ro rs :: 'e failure + bool)
      = Inr (reqMethod r \<in> {''PUT'', ''PATCH'', ''POST''}
             \<and> headers r ''Content-Type'' \<noteq> Some ''application/octet-stream''
             \<and> (case respHeaders rs of None \<Rightarrow> None | Some h \<Rightarrow> h ''Transfer-Encoding'') = Some ''chunked'')"
    by (auto simp: isBuffered_def requestMethod_def getRequestHeader_def Let_def
        TRANSFER_ENCODING_HEADER_def TRANSFER_ENCODING_CHUNKED_def split: option.splits)
  show "(isBuffered (UrlString u) (Some fo) rs :: 'e failure + bool)
      = Inr (optMethod fo \<in> {Some ''PUT'', Some ''PATCH'', Some ''POST''}
             \<and> (case optHeaders fo of None \<Rightarrow> None | Some h \<Rightarrow> h ''Content-Type'')
                 \<noteq> Some ''application/octet-stream''
             \<and> (case respHeaders rs of None \<Rightarrow> None | Some h \<Rightarrow> h ''Transfer-Encoding'') = Some ''chunked'')"
    by (auto simp: isBuffered_def requestMethod_def getRequestHeader_def Let_def
        TRANSFER_ENCODING_HEADER_def TRANSFER_ENCODING_CHUNKED_def split: option.splits)
  show "executeWithRetry sampleEnv defaultRetryHandlerOptions (respondWith chunked503 :: (unit, string) Middleware)
        urlContext 0 (defaultRetryHandlerOptions\<lparr>maxRetries := 0\<rparr>) world0
      = Some (Inl TypeError, urlContext\<lparr>response := Some chunked503\<rparr>, world0\<lparr>calls := 1\<rparr>)"
    by (simp add: executeWithRetry_unrolled sample_defs handler_defs)
qed (simp_all add: isBuffered_def requestMethod_def urlContext_def)

text \<open>
  C9, on the code as it is. With \<open>maxRetries = 0\<close> a call that starts at counter 0 takes a
  retry: the counter and the attempt header reach 1, above \<open>maxRetries\<close>, and the next
  middleware is executed twice. The call returns all the same, as every call does: the
  counter grows by one at a retry and a retry needs the counter to equal \<open>maxRetries\<close>, so
  there are one or two executions, one sleep before the second, and at most
  \<open>maxRetries + 1 - retryAttempts\<close> retries.
\<close>

theorem executeWithRetry_retries_beyond_maxRetries:
  "maxRetries (defaultRetryHandlerOptions\<lparr>maxRetries := 0\<rparr>) = 0
   \<and> executeWithRetry sampleEnv defaultRetryHandlerOptions (respondWith chunked503 :: (unit, string) Middleware)
        postContext 0 (defaultRetryHandlerOptions\<lparr>maxRetries := 0\<rparr>) world0
      = Some (Inr (),
         \<lparr>request = RequestObject \<lparr>reqMethod = ''POST'', headers = Map.empty(''Retry-Attempt'' \<mapsto> ''1'')\<rparr>,
          options = None, response = Some chunked503, middlewareControl = None\<rparr>,
         \<lparr>nextState = (), calls = 2, sleeps = [Num (15 / 4)]\<rparr>)
   \<and> natToString (Suc 0) = ''1''
   \<and> (\<exists>out ctx' w'.
         executeWithRetry env this (nxt :: ('s, 'e) Middleware) ctx retryAttempts opts w = Some (out, ctx', w')
         \<and> (calls w' = calls w + 1 \<or> calls w' = calls w + 2)
         \<and> length (sleeps w') - length (sleeps w) = calls w' - calls w - 1
         \<and> calls w' - calls w - 1 \<le> Suc (maxRetries opts) - retryAttempts)"
  using executeWithRetry_returns [of env this nxt ctx retryAttempts opts w]
  by (simp add: executeWithRetry_unrolled sample_defs handler_defs natToString.simps)

section \<open>The delay\<close>

text \<open>
  C4, amended. \<open>getDelay\<close> returns \<open>Math.min\<close> of the computed delay and the \<open>maxDelay\<close> of
  the handler's options. When the computed delay is a number, from a numeric
  \<open>Retry-After\<close>, a date or the back-off formula, the result is the smaller of the two and
  so at most \<open>maxDelay\<close>. When \<open>Retry-After\<close> is neither a number nor a date the computed
  delay is \<open>NaN\<close> and so is the result.
\<close>

theorem getDelay_cap:
  "getDelay env this rs retryAttempts dly
      = mathMin (newDelay env rs retryAttempts dly) (Num (maxDelay this))
   \<and> (\<forall>x. newDelay env rs retryAttempts dly = Num x \<longrightarrow>
          getDelay env this rs retryAttempts dly = Num (min x (maxDelay this))
          \<and> jsLessEq (getDelay env this rs retryAttempts dly) (Num (maxDelay this)))
   \<and> (newDelay env rs retryAttempts dly = NaN \<longrightarrow> getDelay env this rs retryAttempts dly = NaN)
   \<and> (\<forall>h v. respHeaders rs = Some h \<and> h ''Retry-After'' = Some v
          \<and> toNumber env v = NaN \<and> dateGetTime env v = NaN \<longrightarrow>
          getDelay env this rs retryAttempts dly = NaN)"
  by (auto simp: getDelay_def mathMin_def jsLessEq_def newDelay_def RETRY_AFTER_HEADER_def
      mathRound_def jsDivide_def jsMinus_def)

text \<open>
  \<open>Retry-After: 200\<close> is capped at the default 180; \<open>Retry-After: soon\<close> gives \<open>NaN\<close>.
\<close>

theorem getDelay_cap_witness:
  "newDelay sampleEnv (retryAfterResponse ''200'') 1 3 = Num 200
   \<and> getDelay sampleEnv defaultRetryHandlerOptions (retryAfterResponse ''200'') 1 3 = Num 180
   \<and> jsLessEq (getDelay sampleEnv defaultRetryHandlerOptions (retryAfterResponse ''200'') 1 3)
        (Num (maxDelay defaultRetryHandlerOptions))
   \<and> newDelay sampleEnv (retryAfterResponse ''soon'') 1 3 = NaN
   \<and> getDelay sampleEnv defaultRetryHandlerOptions (retryAfterResponse ''soon'') 1 3 = NaN"
proof -
  have a: "newDelay sampleEnv (retryAfterResponse ''200'') 1 3 = Num 200"
    by (simp add: sample_defs newDelay_def RETRY_AFTER_HEADER_def number_defs)
  have b: "newDelay sampleEnv (retryAfterResponse ''soon'') 1 3 = NaN"
    by (simp add: sample_defs newDelay_def RETRY_AFTER_HEADER_def number_defs
        mathRound_def jsDivide_def jsMinus_def)
  from a getDelay_cap [of sampleEnv defaultRetryHandlerOptions "retryAfterResponse ''200''" 1 3]
  have c: "getDelay sampleEnv defaultRetryHandlerOptions (retryAfterResponse ''200'') 1 3
             = Num (min 200 (maxDelay defaultRetryHandlerOptions))
           \<and> jsLessEq (getDelay sampleEnv defaultRetryHandlerOptions (retryAfterResponse ''200'') 1 3)
                (Num (maxDelay defaultRetryHandlerOptions))"
    by blast
  from b getDelay_cap [of sampleEnv defaultRetryHandlerOptions "retryAfterResponse ''soon''" 1 3]
  have d: "getDelay sampleEnv defaultRetryHandlerOptions (retryAfterResponse ''soon'') 1 3 = NaN"
    by blast
  show ?thesis using a b c d by (simp add: defaultRetryHandlerOptions_def jsLessEq_def)
qed

text \<open>
  C4 as stated fails at \<open>Retry-After: soon\<close>: the result is \<open>NaN\<close>, which is not at most
  \<open>maxDelay\<close>.
\<close>

theorem getDelay_cap_counterexample:
  "\<not> jsLessEq (getDelay sampleEnv defaultRetryHandlerOptions (retryAfterResponse ''soon'') 1 3)
        (Num (maxDelay defaultRetryHandlerOptions))"
  by (simp add: sample_defs handler_defs number_defs jsLessEq_def)

text \<open>
  C5, amended. For a response with a \<open>Retry-After\<close> header: when \<open>Number\<close> of the value is
  a number, the delay before the cap is that number; otherwise the value is read as a date
  and the delay is \<open>Math.round((new Date(value).getTime() - Date.now()) / 1000)\<close>. For a
  valid date that is a whole number of seconds, the difference rounded to the nearest
  second, at most zero when the date is not in the future; for a value that is no date
  either it is \<open>NaN\<close>.
\<close>

theorem newDelay_retry_after:
  assumes "respHeaders rs = Some h" and "h ''Retry-After'' = Some v"
  shows "(\<forall>x. toNumber env v = Num x \<longrightarrow> newDelay env rs retryAttempts dly = Num x)
     \<and> (toNumber env v = NaN \<longrightarrow>
          newDelay env rs retryAttempts dly
            = mathRound (jsDivide (jsMinus (dateGetTime env v) (Num (dateNow env retryAttempts))) 1000))
     \<and> (\<forall>t. toNumber env v = NaN \<and> dateGetTime env v = Num t \<longrightarrow>
          newDelay env rs retryAttempts dly = Num (roundHalfUp ((t - dateNow env retryAttempts) / 1000))
          \<and> isWholeNumber (newDelay env rs retryAttempts dly)
          \<and> roundHalfUp ((t - dateNow env retryAttempts) / 1000) \<in> \<int>
          \<and> \<bar>roundHalfUp ((t - dateNow env retryAttempts) / 1000) - (t - dateNow env retryAttempts) / 1000\<bar> \<le> 1 / 2
          \<and> (t \<le> dateNow env retryAttempts \<longrightarrow> roundHalfUp ((t - dateNow env retryAttempts) / 1000) \<le> 0))
     \<and> (toNumber env v = NaN \<and> dateGetTime env v = NaN \<longrightarrow>
          newDelay env rs retryAttempts dly = NaN \<and> \<not> isWholeNumber (newDelay env rs retryAttempts dly))"
proof -
  have z: "roundHalfUp x \<in> \<int>" for x
    by (simp add: roundHalfUp_def)
  have p: "t \<le> dateNow env retryAttempts \<Longrightarrow> roundHalfUp ((t - dateNow env retryAttempts) / 1000) \<le> 0" for t
    by (rule roundHalfUp_past) simp
  have d: "\<bar>roundHalfUp x - x\<bar> \<le> 1 / 2" for x
    unfolding roundHalfUp_def by linarith
  show ?thesis
    using assms z p d isWholeNumber_roundHalfUp
    by (auto simp: newDelay_def RETRY_AFTER_HEADER_def mathRound_def jsDivide_def jsMinus_def
        isWholeNumber_def)
qed

text \<open>
  The value \<open>2\<close> gives exactly 2; a date five seconds before the clock gives \<open>-5\<close>; the
  value \<open>soon\<close>, no number and no date, gives \<open>NaN\<close>.
\<close>

theorem newDelay_retry_after_witness:
  "respHeaders (retryAfterResponse ''2'') = Some (Map.empty(''Retry-After'' \<mapsto> ''2''))
   \<and> (Map.empty(''Retry-After'' \<mapsto> ''2'')) ''Retry-After'' = Some ''2''
   \<and> toNumber sampleEnv ''2'' = Num 2
   \<and> newDelay sampleEnv (retryAfterResponse ''2'') 1 3 = Num 2
   \<and> toNumber sampleEnv ''Wed, 21 Oct 2015 07:28:00 GMT'' = NaN
   \<and> dateGetTime sampleEnv ''Wed, 21 Oct 2015 07:28:00 GMT'' = Num 1445412480000
   \<and> newDelay sampleEnv (retryAfterResponse ''Wed, 21 Oct 2015 07:28:00 GMT'') 1 3 = Num (- 5)
   \<and> toNumber sampleEnv ''soon'' = NaN
   \<and> dateGetTime sampleEnv ''soon'' = NaN
   \<and> newDelay sampleEnv (retryAfterResponse ''soon'') 1 3 = NaN"
proof -
  have hs: "respHeaders (retryAfterResponse ''soon'') = Some (Map.empty(''Retry-After'' \<mapsto> ''soon''))"
    by (simp add: retryAfterResponse_def)
  have ns: "toNumber sampleEnv ''soon'' = NaN"
    by (simp add: sampleEnv_def number_defs)
  have ds: "dateGetTime sampleEnv ''soon'' = NaN"
    by (simp add: sampleEnv_def number_defs)
  have h2: "respHeaders (retryAfterResponse ''2'') = Some (Map.empty(''Retry-After'' \<mapsto> ''2''))"
    by (simp add: retryAfterResponse_def)
  have n2: "toNumber sampleEnv ''2'' = Num 2"
    by (simp add: sampleEnv_def number_defs)
  have hd: "respHeaders (retryAfterResponse ''Wed, 21 Oct 2015 07:28:00 GMT'')
      = Some (Map.empty(''Retry-After'' \<mapsto> ''Wed, 21 Oct 2015 07:28:00 GMT''))"
    by (simp add: retryAfterResponse_def)
  have nd: "toNumber sampleEnv ''Wed, 21 Oct 2015 07:28:00 GMT'' = NaN"
    by (simp add: sampleEnv_def number_defs)
  have dd: "dateGetTime sampleEnv ''Wed, 21 Oct 2015 07:28:00 GMT'' = Num 1445412480000"
    by (simp add: sampleEnv_def number_defs)
  have r: "roundHalfUp ((1445412480000 - dateNow sampleEnv 1) / 1000) = - 5"
    by (simp add: sampleEnv_def roundHalfUp_def)
  have k: "(Map.empty(''Retry-After'' \<mapsto> v)) ''Retry-After'' = Some v" for v :: string
    by simp
  from newDelay_retry_after [OF h2 k, of sampleEnv 1 3] n2
  have a: "newDelay sampleEnv (retryAfterResponse ''2'') 1 3 = Num 2"
    by blast
  from newDelay_retry_after [OF hd k, of sampleEnv 1 3] nd dd
  have b: "newDelay sampleEnv (retryAfterResponse ''Wed, 21 Oct 2015 07:28:00 GMT'') 1 3
      = Num (roundHalfUp ((1445412480000 - dateNow sampleEnv 1) / 1000))"
    by blast
  from newDelay_retry_after [OF hs k, of sampleEnv 1 3] ns ds
  have c: "newDelay sampleEnv (retryAfterResponse ''soon'') 1 3 = NaN"
    by blast
  show ?thesis unfolding a b c r using h2 n2 nd dd ns ds by simp
qed

text \<open>
  C5 as stated fails at \<open>Retry-After: soon\<close>: the value is no number, and the delay before
  the cap is \<open>NaN\<close>, not a number of whole seconds.
\<close>

theorem newDelay_retry_after_counterexample:
  "\<not> isWholeNumber (newDelay sampleEnv (retryAfterResponse ''soon'') 1 3)"
  by (simp add: sample_defs newDelay_def RETRY_AFTER_HEADER_def number_defs
      mathRound_def jsDivide_def jsMinus_def isWholeNumber_def)




section \<open>The call\<close>

text \<open>
  C7, on the code as it is. A request given as a URL string with no request options,
  answered by 503 without any throw of the next middleware, under \<open>maxRetries = 0\<close>:
  \<open>isBuffered\<close> reads \<open>options.method\<close> of \<open>undefined\<close> and \<open>execute\<close> fails with a
  \<open>TypeError\<close> of its own after one execution of the next middleware.
\<close>

theorem execute_raises_TypeError:
  "execute sampleEnv 0 (respondWith chunked503 :: (unit, string) Middleware) urlContext
      [defaultRetryHandlerOptions\<lparr>maxRetries := 0\<rparr>] world0
     = Some ((Inl TypeError, urlContext\<lparr>response := Some chunked503\<rparr>, world0\<lparr>calls := 1\<rparr>),
             [defaultRetryHandlerOptions\<lparr>maxRetries := 0\<rparr>, defaultRetryHandlerOptions\<lparr>maxRetries := 0\<rparr>])"
  by (simp add: execute_eq merged_def requestOptionsOf_def assignProperties_def
      executeWithRetry_unrolled sample_defs handler_defs natToString.simps)

text \<open>
  C8. \<open>execute\<close> leaves the options object of the handler, and every object that was in
  the store, as it found it: the store after the call is the one \<open>effectiveOptions\<close>
  built, the old store with one new object at its end, which is the only object written,
  also when the context carries an override.
\<close>

theorem execute_preserves_handler_options:
  assumes "thisOptions < length st"
    and "execute env thisOptions nxt ctx st w = Some (r, st')"
  shows "st' ! thisOptions = st ! thisOptions
     \<and> take (length st) st' = st
     \<and> effectiveOptions thisOptions ctx st = (length st, st')
     \<and> length st' = Suc (length st)"
  using assms
  by (auto simp: execute_eq effectiveOptions_eq nth_append)

text \<open>
  A call with an override of \<open>maxRetries\<close> and \<open>maxDelay\<close>: the new object carries them,
  the object of the handler keeps the defaults.
\<close>

theorem execute_preserves_handler_options_witness:
  "(0::nat) < length [defaultRetryHandlerOptions]
   \<and> execute sampleEnv 0 (respondWith chunked503 :: (unit, string) Middleware)
        (withOverride postContext (emptyPatch\<lparr>patchMaxRetries := Some 0, patchMaxDelay := Some 1\<rparr>))
        [defaultRetryHandlerOptions] world0
      = Some ((Inr (),
          \<lparr>request = RequestObject \<lparr>reqMethod = ''POST'', headers = Map.empty(''Retry-Attempt'' \<mapsto> ''1'')\<rparr>,
           options = None, response = Some chunked503,
           middlewareControl = Some (Map.empty(''RetryHandlerOptions'' \<mapsto>
              emptyPatch\<lparr>patchMaxRetries := Some 0, patchMaxDelay := Some 1\<rparr>))\<rparr>,
          \<lparr>nextState = (), calls = 2, sleeps = [Num (15 / 4)]\<rparr>),
         [defaultRetryHandlerOptions, defaultRetryHandlerOptions\<lparr>maxRetries := 0, maxDelay := 1\<rparr>])
   \<and> [defaultRetryHandlerOptions, defaultRetryHandlerOptions\<lparr>maxRetries := 0, maxDelay := 1\<rparr>] ! 0
      = [defaultRetryHandlerOptions] ! 0"
proof -
  have l: "(0::nat) < length [defaultRetryHandlerOptions]" by simp
  have e: "execute sampleEnv 0 (respondWith chunked503 :: (unit, string) Middleware)
        (withOverride postContext (emptyPatch\<lparr>patchMaxRetries := Some 0, patchMaxDelay := Some 1\<rparr>))
        [defaultRetryHandlerOptions] world0
      = Some ((Inr (),
          \<lparr>request = RequestObject \<lparr>reqMethod = ''POST'', headers = Map.empty(''Retry-Attempt'' \<mapsto> ''1'')\<rparr>,
           options = None, response = Some chunked503,
           middlewareControl = Some (Map.empty(''RetryHandlerOptions'' \<mapsto>
              emptyPatch\<lparr>patchMaxRetries := Some 0, patchMaxDelay := Some 1\<rparr>))\<rparr>,
          \<lparr>nextState = (), calls = 2, sleeps = [Num (15 / 4)]\<rparr>),
         [defaultRetryHandlerOptions, defaultRetryHandlerOptions\<lparr>maxRetries := 0, maxDelay := 1\<rparr>])"
    by (simp add: execute_eq merged_def requestOptionsOf_def assignProperties_def
        executeWithRetry_unrolled sample_defs handler_defs natToString.simps)
  from execute_preserves_handler_options [OF l e] l e show ?thesis by blast
qed



end
